theory Spec2Isabelle
  imports Main "HOL-Library.Multiset"
begin

section \<open>Exceptions and the HTTP status they surface as\<close>

text \<open>
  Every \<^verbatim>\<open>raise\<close> of the service is a value of \<open>exn\<close>. \<open>HTTPException\<close> carries
  the status code and the detail string given at the raise site (auth.py); the other
  constructors are the exceptions of the libraries the handlers call without catching:
  \<open>JWTError\<close> (jose, with its subclasses), \<open>ValueError\<close> and \<open>AttributeError\<close> (Python),
  \<open>MultipleResultsFound\<close>, \<open>IntegrityError\<close> and \<open>DBAPIError\<close> (SQLAlchemy, the last one
  for a statement the database refuses), and the framework's rejection of a query
  parameter outside its declared bounds.
\<close>

datatype exn =
    HTTPException nat string
  | JWTError
  | ValueError string
  | AttributeError
  | MultipleResultsFound
  | IntegrityError
  | DBAPIError
  | RequestValidationError

text \<open>
  main.py registers \<^verbatim>\<open>general_exception_handler\<close> for \<^verbatim>\<open>Exception\<close>, which answers 500;
  an \<^verbatim>\<open>HTTPException\<close> is answered by the framework with its own status code, and a
  request validation error with 422.
\<close>

fun status_code :: "exn \<Rightarrow> nat" where
  "status_code (HTTPException s d) = s"
| "status_code RequestValidationError = 422"
| "status_code JWTError = 500"
| "status_code (ValueError m) = 500"
| "status_code AttributeError = 500"
| "status_code MultipleResultsFound = 500"
| "status_code IntegrityError = 500"
| "status_code DBAPIError = 500"

text \<open>The status of a response: that of the exception, or 200 for a returned value.\<close>

definition http_status :: "exn + 'a \<Rightarrow> nat" where
  "http_status r = (case r of Inl e \<Rightarrow> status_code e | Inr v \<Rightarrow> 200)"

section \<open>Settings (core/settings.py)\<close>

text \<open>
  The four fields of \<^verbatim>\<open>Settings\<close> that security.py reads. \<^verbatim>\<open>SECRET_KEY\<close> has no default
  and comes from the environment; the others default to HS256, 30 minutes and 7 days.
\<close>

record settings =
  SECRET_KEY :: string
  ALGORITHM :: string
  ACCESS_TOKEN_EXPIRE_MINUTES :: int
  REFRESH_TOKEN_EXPIRE_DAYS :: int

definition default_settings :: "string \<Rightarrow> settings" where
  "default_settings key =
     \<lparr> SECRET_KEY = key, ALGORITHM = ''HS256'',
       ACCESS_TOKEN_EXPIRE_MINUTES = 30, REFRESH_TOKEN_EXPIRE_DAYS = 7 \<rparr>"

section \<open>Signed tokens\<close>

text \<open>
  A claim value is a JSON string or a JSON integer; the claims of a token are a Python
  dict from claim names to values. Instants are integers, in seconds since the epoch
  (the unit the token library stores \<^verbatim>\<open>exp\<close> in).
\<close>

datatype jval = JStr string | JNum int

type_synonym claims = "string \<rightharpoonup> jval"

text \<open>
  Modelled from the spec: the token library behind \<^verbatim>\<open>jwt.encode\<close> and \<^verbatim>\<open>jwt.decode\<close>
  (python-jose) is not part of the sources. Section 4.2 of the specification describes
  it: a token is the claims signed with a secret under a named algorithm; decoding
  verifies the signature and the expiry, and fails if the signature does not verify, the
  token is malformed, or it is expired, with no leeway. A token string is therefore
  either \<open>Signed\<close> (the claims, the key and the algorithm it was signed with) or
  \<open>Malformed\<close> (any other text). Following the library, a token is expired when its
  \<^verbatim>\<open>exp\<close> lies strictly before the decoding instant, an \<^verbatim>\<open>exp\<close> that is not a number
  and a \<^verbatim>\<open>sub\<close> that is not a string are rejected, and a token without \<^verbatim>\<open>exp\<close> is not
  checked for expiry.
\<close>

datatype jwt = Signed claims string string | Malformed string

definition jwt_encode :: "claims \<Rightarrow> string \<Rightarrow> string \<Rightarrow> jwt" where
  "jwt_encode to_encode key algorithm = Signed to_encode key algorithm"

fun jwt_decode :: "jwt \<Rightarrow> string \<Rightarrow> string list \<Rightarrow> int \<Rightarrow> exn + claims" where
  "jwt_decode (Malformed s) key algorithms now = Inl JWTError"
| "jwt_decode (Signed cl k a) key algorithms now =
     (if a \<notin> set algorithms \<or> k \<noteq> key then Inl JWTError
      else case cl ''exp'' of
        Some (JStr x) \<Rightarrow> Inl JWTError
      | Some (JNum e) \<Rightarrow>
          (if e < now then Inl JWTError
           else case cl ''sub'' of Some (JNum n) \<Rightarrow> Inl JWTError | _ \<Rightarrow> Inr cl)
      | None \<Rightarrow>
          (case cl ''sub'' of Some (JNum n) \<Rightarrow> Inl JWTError | _ \<Rightarrow> Inr cl))"

section \<open>Token issuance and decoding (core/security.py)\<close>

text \<open>
  \<^verbatim>\<open>expires_minutes or settings.ACCESS_TOKEN_EXPIRE_MINUTES\<close>: Python's \<^verbatim>\<open>or\<close> yields its
  right operand when the left one is falsy, that is \<^verbatim>\<open>None\<close> or \<^verbatim>\<open>0\<close>.
\<close>

definition py_or :: "int option \<Rightarrow> int \<Rightarrow> int" where
  "py_or x dflt = (case x of None \<Rightarrow> dflt | Some v \<Rightarrow> if v = 0 then dflt else v)"

text \<open>
  \<^verbatim>\<open>if extra: to_encode.update(extra)\<close>: the entries of \<open>extra\<close> override those already
  set; an empty \<open>extra\<close> is skipped, which is what updating with it does.
\<close>

definition update_extra :: "claims \<Rightarrow> claims option \<Rightarrow> claims" where
  "update_extra to_encode extra =
     (case extra of None \<Rightarrow> to_encode | Some e \<Rightarrow> to_encode ++ e)"

definition create_access_token ::
  "settings \<Rightarrow> int \<Rightarrow> string \<Rightarrow> int option \<Rightarrow> claims option \<Rightarrow> jwt" where
  "create_access_token st now subject expires_minutes extra =
     (let expire_delta = 60 * py_or expires_minutes (ACCESS_TOKEN_EXPIRE_MINUTES st);
          to_encode = [''sub'' \<mapsto> JStr subject, ''exp'' \<mapsto> JNum (now + expire_delta)]
      in jwt_encode (update_extra to_encode extra) (SECRET_KEY st) (ALGORITHM st))"

definition decode_token :: "settings \<Rightarrow> int \<Rightarrow> jwt \<Rightarrow> exn + claims" where
  "decode_token st now token = jwt_decode token (SECRET_KEY st) [ALGORITHM st] now"

definition create_refresh_token ::
  "settings \<Rightarrow> int \<Rightarrow> string \<Rightarrow> int option \<Rightarrow> claims option \<Rightarrow> jwt" where
  "create_refresh_token st now subject expires_days extra =
     (let expire_delta = 86400 * py_or expires_days (REFRESH_TOKEN_EXPIRE_DAYS st);
          to_encode = [''sub'' \<mapsto> JStr subject, ''type'' \<mapsto> JStr ''refresh'',
                       ''exp'' \<mapsto> JNum (now + expire_delta)]
      in jwt_encode (update_extra to_encode extra) (SECRET_KEY st) (ALGORITHM st))"

section \<open>Password hashing (core/security.py)\<close>

text \<open>
  The passlib context and \<^verbatim>\<open>hashlib.sha256\<close> are libraries outside the sources; the two
  functions of security.py are written over them as a parameter. Strings stand for
  their UTF-8 encoding, so \<open>length\<close> is \<^verbatim>\<open>len(s.encode("utf-8"))\<close>.
\<close>



record crypto =
  pwd_identify :: "string \<Rightarrow> string option"
  pwd_verify :: "string \<Rightarrow> string \<Rightarrow> exn + bool"
  pwd_hash :: "string \<Rightarrow> exn + string"
  sha256_hexdigest :: "string \<Rightarrow> string"

fun contains :: "string \<Rightarrow> string \<Rightarrow> bool" where
  "contains p [] = (p = [])"
| "contains p (c # cs) = (take (length p) (c # cs) = p \<or> contains p cs)"

definition verify_password :: "crypto \<Rightarrow> string \<Rightarrow> string \<Rightarrow> exn + bool" where
  "verify_password cr plain_password hashed_password =
     (let scheme = pwd_identify cr hashed_password in
      if scheme = Some ''bcrypt'' \<and> length plain_password > 72
      then pwd_verify cr (sha256_hexdigest cr plain_password) hashed_password
      else pwd_verify cr plain_password hashed_password)"

definition get_password_hash :: "crypto \<Rightarrow> string \<Rightarrow> exn + string" where
  "get_password_hash cr password =
     (case pwd_hash cr password of
        Inr h \<Rightarrow> Inr h
      | Inl (ValueError m) \<Rightarrow>
          (if contains ''72 bytes'' m
           then pwd_hash cr (sha256_hexdigest cr password)
           else Inl (ValueError m))
      | Inl e \<Rightarrow> Inl e)"

section \<open>Account identifiers\<close>

text \<open>
  An identifier is the 128-bit integer of a Python \<^verbatim>\<open>UUID\<close>. \<open>UUID\<close> is the constructor
  applied to a string, as the handlers call it: remove \<^verbatim>\<open>urn:\<close> and \<^verbatim>\<open>uuid:\<close>, strip braces
  at both ends, remove hyphens, require 32 characters, read them with \<^verbatim>\<open>int(hex, 16)\<close> and
  require the result to be a 128-bit value. \<open>str_uuid\<close> is \<^verbatim>\<open>str(u.id)\<close>: 32 lower-case
  hexadecimal digits in groups of 8-4-4-4-12.

  \<open>int_base16\<close> is Python's \<^verbatim>\<open>int(s, 16)\<close> on a string of ASCII characters: blanks around
  the literal are skipped, then come an optional sign, an optional \<^verbatim>\<open>0x\<close> or \<^verbatim>\<open>0X\<close> (which
  one underscore may follow), and at least one hexadecimal digit, with single underscores
  allowed between digits. Strings are byte strings here, so a string with characters
  outside ASCII is measured and read by its bytes.
\<close>

type_synonym uuid = nat

fun remove_all :: "string \<Rightarrow> string \<Rightarrow> string" where
  "remove_all p [] = []"
| "remove_all p (c # cs) =
     (if p \<noteq> [] \<and> take (length p) (c # cs) = p
      then remove_all p (drop (length p - 1) cs)
      else c # remove_all p cs)"

definition strip_chars :: "string \<Rightarrow> string \<Rightarrow> string" where
  "strip_chars chars s =
     rev (dropWhile (\<lambda>c. c \<in> set chars) (rev (dropWhile (\<lambda>c. c \<in> set chars) s)))"

definition hex_digit_val :: "char \<Rightarrow> nat option" where
  "hex_digit_val c =
     (let n = (of_char c :: nat) in
      if 48 \<le> n \<and> n \<le> 57 then Some (n - 48)
      else if 97 \<le> n \<and> n \<le> 102 then Some (n - 87)
      else if 65 \<le> n \<and> n \<le> 70 then Some (n - 55)
      else None)"

definition py_isspace :: "char \<Rightarrow> bool" where
  "py_isspace c = (let n = (of_char c :: nat) in (9 \<le> n \<and> n \<le> 13) \<or> n = 32)"

text \<open>
  The digits of the literal: the value read so far, the number of digits read, whether
  the previous character was an underscore. The result is the value, the number of
  digits and the text after the last digit; two underscores in a row and an underscore
  after the last digit are errors.
\<close>

fun scan_digits :: "string \<Rightarrow> bool \<Rightarrow> int \<Rightarrow> nat \<Rightarrow> (int \<times> nat \<times> string) option" where
  "scan_digits [] prev acc n = (if prev then None else Some (acc, n, []))"
| "scan_digits (c # cs) prev acc n =
     (if c = CHR ''_'' then (if prev then None else scan_digits cs True acc n)
      else case hex_digit_val c of
             Some d \<Rightarrow> scan_digits cs False (16 * acc + int d) (Suc n)
           | None \<Rightarrow> if prev then None else Some (acc, n, c # cs))"

fun strip_sign :: "string \<Rightarrow> bool \<times> string" where
  "strip_sign [] = (False, [])"
| "strip_sign (c # cs) =
     (if c = CHR ''+'' then (False, cs)
      else if c = CHR ''-'' then (True, cs)
      else (False, c # cs))"

fun strip_0x :: "string \<Rightarrow> string" where
  "strip_0x (a # b # cs) =
     (if a = CHR ''0'' \<and> (b = CHR ''x'' \<or> b = CHR ''X'')
      then (case cs of [] \<Rightarrow> [] | u # r \<Rightarrow> if u = CHR ''_'' then r else u # r)
      else a # b # cs)"
| "strip_0x s = s"

definition int_base16 :: "string \<Rightarrow> int option" where
  "int_base16 s =
     (case strip_sign (dropWhile py_isspace s) of
        (negative, s2) \<Rightarrow>
          (let s3 = strip_0x s2 in
           if take 1 s3 = ''_'' then None
           else case scan_digits s3 False 0 0 of
                  None \<Rightarrow> None
                | Some (v, n, rest) \<Rightarrow>
                    if n = 0 then None
                    else if dropWhile py_isspace rest = []
                    then Some (if negative then - v else v)
                    else None))"

definition UUID :: "string \<Rightarrow> exn + uuid" where
  "UUID s =
     (let hex = remove_all ''uuid:'' (remove_all ''urn:'' s);
          hex = remove_all ''-'' (strip_chars ''{}'' hex)
      in if length hex \<noteq> 32 then Inl (ValueError ''badly formed hexadecimal UUID string'')
         else case int_base16 hex of
                None \<Rightarrow> Inl (ValueError ''invalid literal for int() with base 16'')
              | Some i \<Rightarrow>
                  if 0 \<le> i \<and> i < 2 ^ 128 then Inr (nat i)
                  else Inl (ValueError ''int is out of range (need a 128-bit value)''))"

definition hex_char :: "nat \<Rightarrow> char" where
  "hex_char d = ''0123456789abcdef'' ! (d mod 16)"

fun to_hex :: "nat \<Rightarrow> nat \<Rightarrow> string" where
  "to_hex 0 n = []"
| "to_hex (Suc k) n = to_hex k (n div 16) @ [hex_char n]"

definition str_uuid :: "uuid \<Rightarrow> string" where
  "str_uuid u =
     (let h = to_hex 32 u in
      take 8 h @ ''-'' @ take 4 (drop 8 h) @ ''-'' @ take 4 (drop 12 h) @ ''-'' @
      take 4 (drop 16 h) @ ''-'' @ drop 20 h)"

section \<open>The account table (models/auth.py)\<close>

text \<open>
  One row of the table \<^verbatim>\<open>users\<close>. The primary key \<^verbatim>\<open>id\<close> is the field \<open>id_user\<close>.
  Timestamps are integers on the clock's scale.
\<close>

record user =
  id_user :: uuid
  email :: string
  username :: string
  full_name :: "string option"
  is_active :: bool
  password_hash :: string
  created_at :: int
  updated_at :: int
  last_login :: "int option"

type_synonym db = "user list"

text \<open>
  \<^verbatim>\<open>scalar_one_or_none()\<close> of a query result: no row is \<^verbatim>\<open>None\<close>, one row is that row,
  and more than one row raises \<^verbatim>\<open>MultipleResultsFound\<close>.
\<close>

fun scalar_one_or_none :: "'a list \<Rightarrow> exn + 'a option" where
  "scalar_one_or_none [] = Inr None"
| "scalar_one_or_none [x] = Inr (Some x)"
| "scalar_one_or_none (x # y # zs) = Inl MultipleResultsFound"

text \<open>
  The constraints the table declares: \<^verbatim>\<open>id\<close> is the primary key, \<^verbatim>\<open>email\<close> and
  \<^verbatim>\<open>username\<close> are \<^verbatim>\<open>unique=True\<close>. A commit that would break one raises
  \<^verbatim>\<open>IntegrityError\<close> and stores nothing.
\<close>

definition constraints_ok :: "db \<Rightarrow> bool" where
  "constraints_ok rows =
     (distinct (map id_user rows) \<and> distinct (map email rows) \<and> distinct (map username rows))"

definition commit :: "db \<Rightarrow> exn + db" where
  "commit rows = (if constraints_ok rows then Inr rows else Inl IntegrityError)"

text \<open>Writing back a loaded row: the row with its primary key is replaced.\<close>

definition store_row :: "user \<Rightarrow> db \<Rightarrow> db" where
  "store_row u rows = map (\<lambda>r. if id_user r = id_user u then u else r) rows"

section \<open>Request and response shapes (api/v1/auth.py)\<close>

record user_create =
  c_email :: string
  c_username :: string
  c_full_name :: "string option"
  c_is_active :: bool
  c_password :: string

record user_login =
  l_username :: string
  l_password :: string

text \<open>
  \<^verbatim>\<open>UserUpdate\<close> with \<^verbatim>\<open>dict(exclude_unset=True)\<close>: a field is \<open>Unset\<close> when the request
  body does not mention it and \<open>Given v\<close> when it does; \<open>Given None\<close> is an explicit
  JSON null.
\<close>

datatype 'a field = Unset | Given 'a

record user_update =
  f_email :: "string option field"
  f_username :: "string option field"
  f_full_name :: "string option field"
  f_is_active :: "bool option field"

text \<open>\<^verbatim>\<open>UserResponse\<close>: the projection of a row that is returned; it has no hash field.\<close>

record user_response =
  r_id :: string
  r_email :: string
  r_username :: string
  r_full_name :: "string option"
  r_is_active :: bool
  r_created_at :: int
  r_updated_at :: int
  r_last_login :: "int option"


text \<open>\<^verbatim>\<open>Token(access_token, refresh_token, token_type)\<close>.\<close>

datatype token_response = Token jwt jwt string

definition to_user_response :: "user \<Rightarrow> user_response" where
  "to_user_response u =
     \<lparr> r_id = str_uuid (id_user u), r_email = email u, r_username = username u,
       r_full_name = full_name u, r_is_active = is_active u,
       r_created_at = created_at u, r_updated_at = updated_at u,
       r_last_login = last_login u \<rparr>"

section \<open>The handlers (api/v1/auth.py)\<close>

text \<open>
  A handler takes the table as the request finds it and the clock readings it makes. A
  handler that writes returns its outcome with the table as the request leaves it; an
  exception leaves the table as it was. Python's truth test of a claim value: the empty
  string and zero are falsy.
\<close>

fun falsy :: "jval \<Rightarrow> bool" where
  "falsy (JStr s) = (s = [])"
| "falsy (JNum n) = (n = 0)"

text \<open>\<^verbatim>\<open>UUID(sub)\<close> on a claim value; a number has no \<^verbatim>\<open>replace\<close> method.\<close>

fun UUID_of_claim :: "jval \<Rightarrow> exn + uuid" where
  "UUID_of_claim (JStr s) = UUID s"
| "UUID_of_claim (JNum n) = Inl AttributeError"

subsection \<open>The authorization guard\<close>

text \<open>The body of the \<^verbatim>\<open>try\<close> block of \<^verbatim>\<open>get_current_user\<close>.\<close>

definition get_current_user_try :: "settings \<Rightarrow> db \<Rightarrow> int \<Rightarrow> jwt \<Rightarrow> exn + user" where
  "get_current_user_try st rows now token =
     (case decode_token st now token of
        Inl e \<Rightarrow> Inl e
      | Inr payload \<Rightarrow>
          (case payload ''sub'' of
             None \<Rightarrow> Inl (HTTPException 401 ''Invalid token'')
           | Some sub \<Rightarrow>
               (if falsy sub then Inl (HTTPException 401 ''Invalid token'')
                else (case UUID_of_claim sub of
                  Inl e \<Rightarrow> Inl e
                | Inr uid \<Rightarrow>
                    (case scalar_one_or_none (filter (\<lambda>r. id_user r = uid) rows) of
                       Inl e \<Rightarrow> Inl e
                     | Inr None \<Rightarrow> Inl (HTTPException 401 ''User not found'')
                     | Inr (Some u) \<Rightarrow> Inr u)))))"

text \<open>\<^verbatim>\<open>except Exception\<close> catches every exception of the body, its own 401s included.\<close>

definition get_current_user :: "settings \<Rightarrow> db \<Rightarrow> int \<Rightarrow> jwt \<Rightarrow> exn + user" where
  "get_current_user st rows now token =
     (case get_current_user_try st rows now token of
        Inl e \<Rightarrow> Inl (HTTPException 401 ''Invalid credentials'')
      | Inr u \<Rightarrow> Inr u)"

subsection \<open>Register\<close>

text \<open>
  \<open>new_id\<close> is the value \<^verbatim>\<open>uuid.uuid4\<close> draws for the row's primary key, \<open>now\<close> the
  reading of \<^verbatim>\<open>datetime.utcnow()\<close>. The request's \<^verbatim>\<open>is_active\<close> is not read.
\<close>

definition create_user ::
  "crypto \<Rightarrow> db \<Rightarrow> int \<Rightarrow> uuid \<Rightarrow> user_create \<Rightarrow> (exn + user_response) \<times> db" where
  "create_user cr rows now new_id user_data =
     (case scalar_one_or_none
             (filter (\<lambda>r. email r = c_email user_data \<or> username r = c_username user_data) rows) of
        Inl e \<Rightarrow> (Inl e, rows)
      | Inr (Some existing) \<Rightarrow> (Inl (HTTPException 409 ''User already exists''), rows)
      | Inr None \<Rightarrow>
          (case get_password_hash cr (c_password user_data) of
             Inl e \<Rightarrow> (Inl e, rows)
           | Inr h \<Rightarrow>
               (let u = \<lparr> id_user = new_id, email = c_email user_data,
                          username = c_username user_data, full_name = c_full_name user_data,
                          is_active = True, password_hash = h,
                          created_at = now, updated_at = now, last_login = None \<rparr>
                in case commit (rows @ [u]) of
                     Inl e \<Rightarrow> (Inl e, rows)
                   | Inr rows' \<Rightarrow> (Inr (to_user_response u), rows'))))"

subsection \<open>Login\<close>

text \<open>
  \<open>now\<close> is the reading for \<^verbatim>\<open>last_login\<close>; \<open>now_a\<close> and \<open>now_r\<close> are the readings the
  two token constructors make.
\<close>

definition username_extra :: "user \<Rightarrow> claims option" where
  "username_extra u = Some [''username'' \<mapsto> JStr (username u)]"

definition login_user ::
  "crypto \<Rightarrow> settings \<Rightarrow> db \<Rightarrow> int \<Rightarrow> int \<Rightarrow> int \<Rightarrow> user_login
     \<Rightarrow> (exn + token_response) \<times> db" where
  "login_user cr st rows now now_a now_r user_data =
     (case scalar_one_or_none (filter (\<lambda>r. username r = l_username user_data) rows) of
        Inl e \<Rightarrow> (Inl e, rows)
      | Inr None \<Rightarrow> (Inl (HTTPException 401 ''Incorrect username or password''), rows)
      | Inr (Some u) \<Rightarrow>
          (case verify_password cr (l_password user_data) (password_hash u) of
             Inl e \<Rightarrow> (Inl e, rows)
           | Inr False \<Rightarrow> (Inl (HTTPException 401 ''Incorrect username or password''), rows)
           | Inr True \<Rightarrow>
               (case commit (store_row (u\<lparr>last_login := Some now\<rparr>) rows) of
                  Inl e \<Rightarrow> (Inl e, rows)
                | Inr rows' \<Rightarrow>
                    (Inr (Token
                       (create_access_token st now_a (str_uuid (id_user u)) None (username_extra u))
                       (create_refresh_token st now_r (str_uuid (id_user u)) None (username_extra u))
                       ''bearer''),
                     rows'))))"

subsection \<open>Refresh\<close>

text \<open>
  \<open>now\<close> is the instant of decoding. Nothing is caught: an exception of
  \<^verbatim>\<open>decode_token\<close> or of \<^verbatim>\<open>UUID\<close> leaves the handler as it is.
\<close>

definition refresh_token ::
  "settings \<Rightarrow> db \<Rightarrow> int \<Rightarrow> int \<Rightarrow> int \<Rightarrow> jwt \<Rightarrow> exn + token_response" where
  "refresh_token st rows now now_a now_r data =
     (case decode_token st now data of
        Inl e \<Rightarrow> Inl e
      | Inr payload \<Rightarrow>
          (if payload ''type'' \<noteq> Some (JStr ''refresh'')
           then Inl (HTTPException 400 ''Invalid refresh token'')
           else (case payload ''sub'' of
             None \<Rightarrow> Inl (HTTPException 401 ''Invalid token'')
           | Some sub \<Rightarrow>
               (if falsy sub then Inl (HTTPException 401 ''Invalid token'')
                else (case UUID_of_claim sub of
                  Inl e \<Rightarrow> Inl e
                | Inr uid \<Rightarrow>
                    (case scalar_one_or_none (filter (\<lambda>r. id_user r = uid) rows) of
                       Inl e \<Rightarrow> Inl e
                     | Inr None \<Rightarrow> Inl (HTTPException 401 ''User not found'')
                     | Inr (Some u) \<Rightarrow>
                         (if \<not> is_active u then Inl (HTTPException 401 ''User not found'')
                          else Inr (Token
                            (create_access_token st now_a (str_uuid (id_user u)) None
                               (username_extra u))
                            (create_refresh_token st now_r (str_uuid (id_user u)) None
                               (username_extra u))
                            ''bearer''))))))))"

subsection \<open>List\<close>





subsection \<open>Update\<close>

text \<open>
  The conflict query starts from \<^verbatim>\<open>User.id != uid\<close> and adds one \<^verbatim>\<open>where\<close> per
  supplied field; successive \<^verbatim>\<open>where\<close> calls are joined by AND. Comparing a column
  with a JSON null matches no row. The columns \<^verbatim>\<open>email\<close>, \<^verbatim>\<open>username\<close> and
  \<^verbatim>\<open>is_active\<close> are \<^verbatim>\<open>nullable=False\<close>: assigning a null to one of them fails at the
  commit.
\<close>

text \<open>\<^verbatim>\<open>"email" in update_dict\<close>: the request supplies the field.\<close>

fun is_given :: "'a field \<Rightarrow> bool" where
  "is_given Unset = False"
| "is_given (Given v) = True"

definition matches_field :: "string option field \<Rightarrow> string \<Rightarrow> bool" where
  "matches_field f v = (case f of Unset \<Rightarrow> True | Given x \<Rightarrow> x = Some v)"

definition conflict_q :: "uuid \<Rightarrow> user_update \<Rightarrow> db \<Rightarrow> user list" where
  "conflict_q uid update_data rows =
     filter (\<lambda>r. id_user r \<noteq> uid \<and> matches_field (f_email update_data) (email r)
                 \<and> matches_field (f_username update_data) (username r)) rows"

definition assign :: "'a option field \<Rightarrow> 'a \<Rightarrow> 'a" where
  "assign f old = (case f of Given (Some v) \<Rightarrow> v | _ \<Rightarrow> old)"

definition assign_nullable :: "'a option field \<Rightarrow> 'a option \<Rightarrow> 'a option" where
  "assign_nullable f old = (case f of Given v \<Rightarrow> v | Unset \<Rightarrow> old)"

definition apply_update :: "user_update \<Rightarrow> int \<Rightarrow> user \<Rightarrow> user" where
  "apply_update update_data now u =
     u \<lparr> email := assign (f_email update_data) (email u),
         username := assign (f_username update_data) (username u),
         full_name := assign_nullable (f_full_name update_data) (full_name u),
         is_active := assign (f_is_active update_data) (is_active u),
         updated_at := now \<rparr>"

definition null_in_required :: "user_update \<Rightarrow> bool" where
  "null_in_required update_data =
     (f_email update_data = Given None \<or> f_username update_data = Given None
      \<or> f_is_active update_data = Given None)"

definition update_user ::
  "db \<Rightarrow> int \<Rightarrow> string \<Rightarrow> user_update \<Rightarrow> (exn + user_response) \<times> db" where
  "update_user rows now user_id update_data =
     (case UUID user_id of
        Inl e \<Rightarrow> (Inl (HTTPException 400 ''Invalid user ID format''), rows)
      | Inr uid \<Rightarrow>
          (case scalar_one_or_none (filter (\<lambda>r. id_user r = uid) rows) of
             Inl e \<Rightarrow> (Inl e, rows)
           | Inr None \<Rightarrow> (Inl (HTTPException 404 ''User not found''), rows)
           | Inr (Some u) \<Rightarrow>
               (case (if is_given (f_email update_data) \<or> is_given (f_username update_data)
                      then scalar_one_or_none (conflict_q uid update_data rows)
                      else Inr None) of
                  Inl e \<Rightarrow> (Inl e, rows)
                | Inr (Some conflict) \<Rightarrow>
                    (Inl (HTTPException 409 ''Email or username already exists''), rows)
                | Inr None \<Rightarrow>
                    (let u' = apply_update update_data now u in
                     if null_in_required update_data then (Inl IntegrityError, rows)
                     else (case commit (store_row u' rows) of
                       Inl e \<Rightarrow> (Inl e, rows)
                     | Inr rows' \<Rightarrow> (Inr (to_user_response u'), rows'))))))"

section \<open>Sample data\<close>

text \<open>
  A stand-in for the hashing libraries, to run the handlers on sample rows: it tags the
  password instead of hashing it. Nothing is proved about hashing with it.
\<close>

definition sample_crypto :: crypto where
  "sample_crypto =
     \<lparr> pwd_identify = (\<lambda>h. if take 15 h = ''$pbkdf2-sha256$'' then Some ''pbkdf2_sha256'' else None),
       pwd_verify = (\<lambda>p h. Inr (h = ''$pbkdf2-sha256$'' @ p)),
       pwd_hash = (\<lambda>p. Inr (''$pbkdf2-sha256$'' @ p)),
       sha256_hexdigest = (\<lambda>p. p) \<rparr>"

definition sample_user :: "nat \<Rightarrow> string \<Rightarrow> string \<Rightarrow> bool \<Rightarrow> int \<Rightarrow> user" where
  "sample_user i e n a t =
     \<lparr> id_user = i, email = e, username = n, full_name = None, is_active = a,
       password_hash = ''$pbkdf2-sha256$pw12345'', created_at = t, updated_at = t,
       last_login = None \<rparr>"

definition alice :: user where "alice = sample_user 1 ''a@x.com'' ''alice'' True 100"
definition bob :: user where "bob = sample_user 2 ''b@x.com'' ''bob'' False 200"
definition carol :: user where "carol = sample_user 3 ''c@x.com'' ''carol'' True 300"
definition dave :: user where "dave = sample_user 4 ''d@x.com'' ''dave'' True 400"
definition erin :: user where "erin = sample_user 5 ''e@x.com'' ''erin'' False 500"

definition sample_settings :: settings where
  "sample_settings = default_settings ''secret''"


text \<open>A password of 80 bytes that starts with a two-byte character.\<close>

definition long_password :: string where
  "long_password = [CHR 0xC3, CHR 0xA4] @
     ''aaaaaaaaaaaaaaaaaaaaaaaaaaaaaaaaaaaaaaabbbbbbbbbbbbbbbbbbbbbbbbbbbbbbbbbbbbbbb''"

text \<open>
  A second stand-in, for a context whose first scheme is \<^verbatim>\<open>bcrypt\<close> with
  \<^verbatim>\<open>truncate_error=False\<close>: it reads the first 72 bytes of a password and never raises.
\<close>

definition truncating_bcrypt :: crypto where
  "truncating_bcrypt =
     \<lparr> pwd_identify = (\<lambda>h. if take 4 h = ''$2b$'' then Some ''bcrypt'' else None),
       pwd_verify = (\<lambda>p h. Inr (h = ''$2b$'' @ take 72 p)),
       pwd_hash = (\<lambda>p. Inr (''$2b$'' @ take 72 p)),
       sha256_hexdigest =
         (\<lambda>p. ''e3b0c44298fc1c149afbf4c8996fb92427ae41e4649b934ca495991b7852b855'') \<rparr>"

section \<open>Facts about the table and the sample data\<close>

lemmas token_defs = decode_token_def create_access_token_def create_refresh_token_def
  py_or_def update_extra_def jwt_encode_def sample_settings_def default_settings_def
  username_extra_def

lemmas sample_defs = alice_def bob_def carol_def dave_def erin_def sample_user_def

lemma scalar_one_Some: "scalar_one_or_none xs = Inr (Some x) \<Longrightarrow> xs = [x]"
  by (cases xs rule: scalar_one_or_none.cases) auto

lemma scalar_one_None: "scalar_one_or_none xs = Inr None \<Longrightarrow> xs = []"
  by (cases xs rule: scalar_one_or_none.cases) auto

lemma filter_singleton_mem: "filter P xs = [x] \<Longrightarrow> x \<in> set xs \<and> P x"
proof -
  assume a: "filter P xs = [x]"
  have "x \<in> set (filter P xs)" unfolding a by simp
  then show ?thesis by simp
qed

lemma filter_id_none:
  "id_user u \<notin> id_user ` set rows \<Longrightarrow> filter (\<lambda>r. id_user r = id_user u) rows = []"
  by (induction rows) auto

lemma filter_id_absent:
  "uid \<notin> id_user ` set rows \<Longrightarrow> filter (\<lambda>r. id_user r = uid) rows = []"
  by (auto simp: filter_empty_conv)

text \<open>Looking a row up by its primary key finds exactly that row.\<close>

lemma filter_id_unique:
  "distinct (map id_user rows) \<Longrightarrow> u \<in> set rows \<Longrightarrow>
   filter (\<lambda>r. id_user r = id_user u) rows = [u]"
proof (induction rows)
  case Nil
  then show ?case by simp
next
  case (Cons a rows)
  show ?case
  proof (cases "a = u")
    case True
    have "id_user u \<notin> id_user ` set rows"
      using Cons.prems(1) True by simp
    then have "filter (\<lambda>r. id_user r = id_user u) rows = []"
      by (rule filter_id_none)
    then show ?thesis using True by simp
  next
    case False
    then have in_rows: "u \<in> set rows" using Cons.prems(2) by simp
    have "id_user a \<notin> id_user ` set rows" using Cons.prems(1) by simp
    then have "id_user a \<noteq> id_user u" using in_rows by force
    then show ?thesis using Cons in_rows by simp
  qed
qed

text \<open>
  Writing a row back changes no column on which the written row agrees with the row it
  replaces.
\<close>

lemma map_store_row:
  assumes "distinct (map id_user rows)" and "u \<in> set rows"
    and "id_user u' = id_user u" and "f u' = f u"
  shows "map f (store_row u' rows) = map f rows"
proof -
  have "f (if id_user r = id_user u' then u' else r) = f r" if "r \<in> set rows" for r
  proof (cases "id_user r = id_user u'")
    case True
    then have "id_user r = id_user u" using assms(3) by simp
    then have "r = u"
      using assms(1,2) that by (meson distinct_map inj_on_def)
    then show ?thesis using assms(4) by simp
  next
    case False
    then show ?thesis by simp
  qed
  then show ?thesis by (simp add: store_row_def)
qed

lemma store_row_constraints:
  assumes "constraints_ok rows" and "u \<in> set rows"
    and "id_user u' = id_user u" and "email u' = email u" and "username u' = username u"
  shows "constraints_ok (store_row u' rows)"
proof -
  have d: "distinct (map id_user rows)" using assms(1) by (simp add: constraints_ok_def)
  have "map id_user (store_row u' rows) = map id_user rows"
    using d assms(2,3) by (intro map_store_row [where u = u]) simp_all
  moreover have "map email (store_row u' rows) = map email rows"
    using d assms(2,3,4) by (intro map_store_row [where u = u]) simp_all
  moreover have "map username (store_row u' rows) = map username rows"
    using d assms(2,3,5) by (intro map_store_row [where u = u]) simp_all
  ultimately show ?thesis using assms(1) by (simp add: constraints_ok_def)
qed

lemma UUID_empty: "UUID [] = Inl (ValueError ''badly formed hexadecimal UUID string'')"
  by code_simp

lemma UUID_bad: "UUID ''not-a-uuid'' = Inl (ValueError ''badly formed hexadecimal UUID string'')"
  by code_simp

lemma str_uuid_1: "str_uuid 1 = ''00000000-0000-0000-0000-000000000001''"
  by code_simp

lemma str_uuid_2: "str_uuid 2 = ''00000000-0000-0000-0000-000000000002''"
  by code_simp

lemma str_uuid_7: "str_uuid 7 = ''00000000-0000-0000-0000-000000000007''"
  by code_simp

lemma UUID_1: "UUID ''00000000-0000-0000-0000-000000000001'' = Inr 1"
  by code_simp

lemma UUID_2: "UUID ''00000000-0000-0000-0000-000000000002'' = Inr 2"
  by code_simp

lemma UUID_7: "UUID ''00000000-0000-0000-0000-000000000007'' = Inr 7"
  by code_simp

section \<open>Password hashing: round trip\<close>




text \<open>
  The condition on the scheme is needed. \<open>get_password_hash\<close> hashes the digest of the
  password only when the context raises, and \<open>verify_password\<close> verifies the digest
  whenever the hash is a \<^verbatim>\<open>bcrypt\<close> one and the password is longer than 72 bytes. A
  context whose first scheme is \<^verbatim>\<open>bcrypt\<close> and which truncates silently accepts its own
  hash of every password; through the two functions the long password is rejected.
\<close>

lemma truncating_bcrypt_alone:
  "\<exists>h. pwd_hash truncating_bcrypt p = Inr h \<and> pwd_verify truncating_bcrypt p h = Inr True"
  by (simp add: truncating_bcrypt_def)

lemma truncating_bcrypt_through_code:
  "get_password_hash truncating_bcrypt long_password = Inr (''$2b$'' @ take 72 long_password)
   \<and> verify_password truncating_bcrypt long_password (''$2b$'' @ take 72 long_password)
       = Inr False"
  by (simp add: get_password_hash_def verify_password_def truncating_bcrypt_def long_password_def)

section \<open>Token issuance: expiry and round trip\<close>

lemma py_or_zero: "py_or (Some 0) dflt = py_or None dflt"
  by (simp add: py_or_def)

lemma create_access_token_zero_ttl:
  "create_access_token st now subject (Some 0) extra =
   create_access_token st now subject None extra"
  by (simp add: create_access_token_def py_or_zero)

text \<open>
  Claim C1. An access token issued with \<^verbatim>\<open>expires_minutes=0\<close> is expected to fail
  decoding as expired. The code replaces a zero by the configured default, so under the
  default settings the token issued at instant 1000 carries the expiry 1000 + 30 * 60
  and decodes successfully at the instant of issue.
\<close>

theorem zero_ttl_token_decodes:
  "decode_token (default_settings ''secret'') 1000
     (create_access_token (default_settings ''secret'') 1000 ''alice'' (Some 0) None)
   = Inr [''sub'' \<mapsto> JStr ''alice'', ''exp'' \<mapsto> JNum 2800]"
  by (simp add: decode_token_def create_access_token_def default_settings_def py_or_def
      update_extra_def jwt_encode_def)

text \<open>
  Claim C5. For every subject \<open>s\<close>, an access token issued for \<open>s\<close> with the default
  arguments, decoded no later than its expiry, yields claims whose \<^verbatim>\<open>sub\<close> is \<open>s\<close> and
  whose \<^verbatim>\<open>type\<close> is not \<^verbatim>\<open>refresh\<close>; a refresh token issued for \<open>s\<close> yields claims whose
  \<^verbatim>\<open>sub\<close> is \<open>s\<close> and whose \<^verbatim>\<open>type\<close> is \<^verbatim>\<open>refresh\<close>.
\<close>

theorem token_round_trip:
  "(t \<le> t0 + 60 * ACCESS_TOKEN_EXPIRE_MINUTES st \<longrightarrow>
      (\<exists>cl. decode_token st t (create_access_token st t0 s None None) = Inr cl
          \<and> cl ''sub'' = Some (JStr s) \<and> cl ''type'' \<noteq> Some (JStr ''refresh''))) \<and>
   (t \<le> t0 + 86400 * REFRESH_TOKEN_EXPIRE_DAYS st \<longrightarrow>
      (\<exists>cl. decode_token st t (create_refresh_token st t0 s None None) = Inr cl
          \<and> cl ''sub'' = Some (JStr s) \<and> cl ''type'' = Some (JStr ''refresh'')))"
  by (simp add: decode_token_def create_access_token_def create_refresh_token_def py_or_def
      update_extra_def jwt_encode_def)

theorem token_round_trip_witness:
  "(1000::int) \<le> 1000 + 60 * ACCESS_TOKEN_EXPIRE_MINUTES sample_settings \<and>
   (\<exists>cl. decode_token sample_settings 1000
            (create_access_token sample_settings 1000 ''u1'' None None) = Inr cl
        \<and> cl ''sub'' = Some (JStr ''u1'') \<and> cl ''type'' \<noteq> Some (JStr ''refresh'')) \<and>
   (1000::int) \<le> 1000 + 86400 * REFRESH_TOKEN_EXPIRE_DAYS sample_settings \<and>
   (\<exists>cl. decode_token sample_settings 1000
            (create_refresh_token sample_settings 1000 ''u1'' None None) = Inr cl
        \<and> cl ''sub'' = Some (JStr ''u1'') \<and> cl ''type'' = Some (JStr ''refresh''))"
  using token_round_trip [of 1000 1000 sample_settings "''u1''"]
  by (simp add: sample_settings_def default_settings_def)

section \<open>The authorization guard\<close>

lemma login_user_succeeds:
  assumes "filter (\<lambda>r. username r = l_username d) rows = [u]"
    and "verify_password cr (l_password d) (password_hash u) = Inr True"
    and "constraints_ok rows"
  shows "login_user cr st rows now now_a now_r d
     = (Inr (Token
          (create_access_token st now_a (str_uuid (id_user u)) None (username_extra u))
          (create_refresh_token st now_r (str_uuid (id_user u)) None (username_extra u))
          ''bearer''),
        store_row (u\<lparr>last_login := Some now\<rparr>) rows)"
proof -
  have "u \<in> set rows" using filter_singleton_mem [OF assms(1)] by simp
  then have "constraints_ok (store_row (u\<lparr>last_login := Some now\<rparr>) rows)"
    using assms(3) by (intro store_row_constraints [where u = u]) simp_all
  then show ?thesis using assms(1,2) by (simp add: login_user_def commit_def)
qed

text \<open>
  Claim C7. Every failure of the guard is the same exception, 401 with the detail
  \<^verbatim>\<open>Invalid credentials\<close>: whatever exception \<open>get_current_user\<close> raises is that one, and
  each of the causes leads to it: the token does not decode; the decoded claims have no
  subject, or an empty one; the subject does not parse as an identifier; no row has the
  identifier.
\<close>

theorem guard_failures_collapse:
  "(get_current_user st rows now token = Inl e \<longrightarrow> e = HTTPException 401 ''Invalid credentials'')
   \<and> (decode_token st now token = Inl e1 \<longrightarrow>
        get_current_user st rows now token = Inl (HTTPException 401 ''Invalid credentials''))
   \<and> (decode_token st now token = Inr payload
        \<and> (payload ''sub'' = None \<or> payload ''sub'' = Some (JStr [])) \<longrightarrow>
        get_current_user st rows now token = Inl (HTTPException 401 ''Invalid credentials''))
   \<and> (decode_token st now token = Inr payload \<and> payload ''sub'' = Some sub
        \<and> UUID_of_claim sub = Inl e2 \<longrightarrow>
        get_current_user st rows now token = Inl (HTTPException 401 ''Invalid credentials''))
   \<and> (decode_token st now token = Inr payload \<and> payload ''sub'' = Some sub
        \<and> UUID_of_claim sub = Inr uid \<and> uid \<notin> id_user ` set rows \<longrightarrow>
        get_current_user st rows now token = Inl (HTTPException 401 ''Invalid credentials''))"
proof (intro conjI impI)
  assume "get_current_user st rows now token = Inl e"
  then show "e = HTTPException 401 ''Invalid credentials''"
    by (auto simp: get_current_user_def split: sum.splits)
next
  assume "decode_token st now token = Inl e1"
  then show "get_current_user st rows now token = Inl (HTTPException 401 ''Invalid credentials'')"
    by (simp add: get_current_user_def get_current_user_try_def)
next
  assume "decode_token st now token = Inr payload
    \<and> (payload ''sub'' = None \<or> payload ''sub'' = Some (JStr []))"
  then show "get_current_user st rows now token = Inl (HTTPException 401 ''Invalid credentials'')"
    by (auto simp: get_current_user_def get_current_user_try_def)
next
  assume "decode_token st now token = Inr payload \<and> payload ''sub'' = Some sub
    \<and> UUID_of_claim sub = Inl e2"
  then show "get_current_user st rows now token = Inl (HTTPException 401 ''Invalid credentials'')"
    by (auto simp: get_current_user_def get_current_user_try_def)
next
  assume "decode_token st now token = Inr payload \<and> payload ''sub'' = Some sub
    \<and> UUID_of_claim sub = Inr uid \<and> uid \<notin> id_user ` set rows"
  then show "get_current_user st rows now token = Inl (HTTPException 401 ''Invalid credentials'')"
    by (auto simp: get_current_user_def get_current_user_try_def filter_id_absent)
qed

theorem guard_failures_collapse_witness:
  "get_current_user sample_settings [alice] 1000 (Malformed ''garbage'')
     = Inl (HTTPException 401 ''Invalid credentials'') \<and>
   get_current_user sample_settings [alice] 1000
       (Signed [''exp'' \<mapsto> JNum 5000] ''secret'' ''HS256'')
     = Inl (HTTPException 401 ''Invalid credentials'') \<and>
   get_current_user sample_settings [alice] 1000
       (create_access_token sample_settings 1000 [] None None)
     = Inl (HTTPException 401 ''Invalid credentials'') \<and>
   get_current_user sample_settings [alice] 1000
       (create_access_token sample_settings 1000 ''not-a-uuid'' None None)
     = Inl (HTTPException 401 ''Invalid credentials'') \<and>
   get_current_user sample_settings [alice] 1000
       (create_access_token sample_settings 1000 (str_uuid 7) None None)
     = Inl (HTTPException 401 ''Invalid credentials'')"
proof -
  let ?g = "Inl (HTTPException 401 ''Invalid credentials'') :: exn + user"
  let ?t0 = "Signed [''exp'' \<mapsto> JNum 5000] ''secret'' ''HS256''"
  let ?t2 = "create_access_token sample_settings 1000 [] None None"
  let ?t3 = "create_access_token sample_settings 1000 ''not-a-uuid'' None None"
  let ?t4 = "create_access_token sample_settings 1000 (str_uuid 7) None None"
  have d1: "decode_token sample_settings 1000 (Malformed ''garbage'') = Inl JWTError"
    by (simp add: token_defs)
  have c1: "get_current_user sample_settings [alice] 1000 (Malformed ''garbage'') = ?g"
    using guard_failures_collapse
      [of sample_settings "[alice]" 1000 "Malformed ''garbage''" _ JWTError] d1
    by blast
  have "\<exists>p. decode_token sample_settings 1000 ?t0 = Inr p \<and> p ''sub'' = None"
    by (simp add: token_defs)
  then obtain p0 where p0: "decode_token sample_settings 1000 ?t0 = Inr p0" "p0 ''sub'' = None"
    by blast
  have c0: "get_current_user sample_settings [alice] 1000 ?t0 = ?g"
    using guard_failures_collapse [of sample_settings "[alice]" 1000 ?t0 _ _ p0] p0 by blast
  have "\<exists>p. decode_token sample_settings 1000 ?t2 = Inr p \<and> p ''sub'' = Some (JStr [])"
    by (simp add: token_defs)
  then obtain p2 where
    p2: "decode_token sample_settings 1000 ?t2 = Inr p2" "p2 ''sub'' = Some (JStr [])"
    by blast
  have c2: "get_current_user sample_settings [alice] 1000 ?t2 = ?g"
    using guard_failures_collapse [of sample_settings "[alice]" 1000 ?t2 _ _ p2] p2 by blast
  have "\<exists>p. decode_token sample_settings 1000 ?t3 = Inr p
          \<and> p ''sub'' = Some (JStr ''not-a-uuid'')"
    by (simp add: token_defs)
  then obtain p3 where p3: "decode_token sample_settings 1000 ?t3 = Inr p3"
      "p3 ''sub'' = Some (JStr ''not-a-uuid'')"
    by blast
  have u3: "UUID_of_claim (JStr ''not-a-uuid'')
      = Inl (ValueError ''badly formed hexadecimal UUID string'')"
    by (simp add: UUID_bad)
  have c3: "get_current_user sample_settings [alice] 1000 ?t3 = ?g"
    using guard_failures_collapse [of sample_settings "[alice]" 1000 ?t3 _ _ p3
        "JStr ''not-a-uuid''" "ValueError ''badly formed hexadecimal UUID string''"] p3 u3
    by blast
  have "\<exists>p. decode_token sample_settings 1000 ?t4 = Inr p
          \<and> p ''sub'' = Some (JStr ''00000000-0000-0000-0000-000000000007'')"
    by (simp add: token_defs str_uuid_7)
  then obtain p4 where p4: "decode_token sample_settings 1000 ?t4 = Inr p4"
      "p4 ''sub'' = Some (JStr ''00000000-0000-0000-0000-000000000007'')"
    by blast
  have u4: "UUID_of_claim (JStr ''00000000-0000-0000-0000-000000000007'') = Inr 7"
    by (simp add: UUID_7)
  have m4: "7 \<notin> id_user ` set [alice]" by (simp add: sample_defs)
  have c4: "get_current_user sample_settings [alice] 1000 ?t4 = ?g"
    using guard_failures_collapse [of sample_settings "[alice]" 1000 ?t4 _ _ p4
        "JStr ''00000000-0000-0000-0000-000000000007''" _ 7] p4 u4 m4
    by blast
  show ?thesis using c1 c0 c2 c3 c4 by blast
qed

text \<open>
  Claim C10. A token that decodes, whose subject parses to the identifier of a row of
  the table, makes the guard return that row whatever its active flag is. The refresh
  handler answers 401 for the same subject when the row is inactive, and login, too,
  issues tokens without reading the flag.
\<close>

theorem guard_ignores_active_flag:
  "(decode_token st now token = Inr payload \<and> payload ''sub'' = Some (JStr s)
      \<and> UUID s = Inr (id_user u) \<and> u \<in> set rows \<and> distinct (map id_user rows)
    \<longrightarrow> get_current_user st rows now token = Inr u)
   \<and> (decode_token st now token = Inr payload \<and> payload ''type'' = Some (JStr ''refresh'')
      \<and> payload ''sub'' = Some (JStr s)
      \<and> UUID s = Inr (id_user u) \<and> u \<in> set rows \<and> distinct (map id_user rows)
      \<and> \<not> is_active u
    \<longrightarrow> refresh_token st rows now now_a now_r token = Inl (HTTPException 401 ''User not found''))
   \<and> (filter (\<lambda>r. username r = l_username d) rows = [u]
      \<and> verify_password cr (l_password d) (password_hash u) = Inr True \<and> constraints_ok rows
    \<longrightarrow> fst (login_user cr st rows now now_a now_r d) = Inr (Token
          (create_access_token st now_a (str_uuid (id_user u)) None (username_extra u))
          (create_refresh_token st now_r (str_uuid (id_user u)) None (username_extra u))
          ''bearer''))"
proof (intro conjI impI)
  assume a: "decode_token st now token = Inr payload \<and> payload ''sub'' = Some (JStr s)
      \<and> UUID s = Inr (id_user u) \<and> u \<in> set rows \<and> distinct (map id_user rows)"
  then have "s \<noteq> []" using UUID_empty by auto
  moreover have "filter (\<lambda>r. id_user r = id_user u) rows = [u]"
    using a by (simp add: filter_id_unique)
  ultimately show "get_current_user st rows now token = Inr u"
    using a by (simp add: get_current_user_def get_current_user_try_def)
next
  assume a: "decode_token st now token = Inr payload \<and> payload ''type'' = Some (JStr ''refresh'')
      \<and> payload ''sub'' = Some (JStr s)
      \<and> UUID s = Inr (id_user u) \<and> u \<in> set rows \<and> distinct (map id_user rows)
      \<and> \<not> is_active u"
  then have "s \<noteq> []" using UUID_empty by auto
  moreover have "filter (\<lambda>r. id_user r = id_user u) rows = [u]"
    using a by (simp add: filter_id_unique)
  ultimately show
    "refresh_token st rows now now_a now_r token = Inl (HTTPException 401 ''User not found'')"
    using a by (simp add: refresh_token_def)
next
  assume "filter (\<lambda>r. username r = l_username d) rows = [u]
      \<and> verify_password cr (l_password d) (password_hash u) = Inr True \<and> constraints_ok rows"
  then show "fst (login_user cr st rows now now_a now_r d) = Inr (Token
          (create_access_token st now_a (str_uuid (id_user u)) None (username_extra u))
          (create_refresh_token st now_r (str_uuid (id_user u)) None (username_extra u))
          ''bearer'')"
    by (simp add: login_user_succeeds)
qed

theorem guard_ignores_active_flag_witness:
  "\<not> is_active bob \<and>
   get_current_user sample_settings [alice, bob] 1000
     (create_access_token sample_settings 1000 (str_uuid (id_user bob)) None (username_extra bob))
     = Inr bob \<and>
   refresh_token sample_settings [alice, bob] 1000 1000 1000
     (create_refresh_token sample_settings 1000 (str_uuid (id_user bob)) None (username_extra bob))
     = Inl (HTTPException 401 ''User not found'') \<and>
   fst (login_user sample_crypto sample_settings [alice, bob] 1000 1000 1000
          \<lparr> l_username = ''bob'', l_password = ''pw12345'' \<rparr>)
     = Inr (Token
         (create_access_token sample_settings 1000 (str_uuid (id_user bob)) None
            (username_extra bob))
         (create_refresh_token sample_settings 1000 (str_uuid (id_user bob)) None
            (username_extra bob))
         ''bearer'')"
proof -
  let ?s = "''00000000-0000-0000-0000-000000000002''"
  let ?ta = "create_access_token sample_settings 1000 (str_uuid (id_user bob)) None
    (username_extra bob)"
  let ?tr = "create_refresh_token sample_settings 1000 (str_uuid (id_user bob)) None
    (username_extra bob)"
  let ?d = "\<lparr> l_username = ''bob'', l_password = ''pw12345'' \<rparr>"
  have idb: "id_user bob = 2" by (simp add: sample_defs)
  have inactive: "\<not> is_active bob" by (simp add: sample_defs)
  have uu: "UUID ?s = Inr (id_user bob)" by (simp add: idb UUID_2)
  have mem: "bob \<in> set [alice, bob]" by simp
  have dist: "distinct (map id_user [alice, bob])" by (simp add: sample_defs)
  have "\<exists>p. decode_token sample_settings 1000 ?ta = Inr p \<and> p ''sub'' = Some (JStr ?s)"
    by (simp add: token_defs idb str_uuid_2)
  then obtain p where
    p: "decode_token sample_settings 1000 ?ta = Inr p" "p ''sub'' = Some (JStr ?s)"
    by blast
  have "\<exists>q. decode_token sample_settings 1000 ?tr = Inr q
          \<and> q ''type'' = Some (JStr ''refresh'') \<and> q ''sub'' = Some (JStr ?s)"
    by (simp add: token_defs idb str_uuid_2)
  then obtain q where q: "decode_token sample_settings 1000 ?tr = Inr q"
      "q ''type'' = Some (JStr ''refresh'')" "q ''sub'' = Some (JStr ?s)"
    by blast
  have g: "get_current_user sample_settings [alice, bob] 1000 ?ta = Inr bob"
    using guard_ignores_active_flag [of sample_settings 1000 ?ta p ?s bob "[alice, bob]"]
      p uu mem dist by blast
  have r: "refresh_token sample_settings [alice, bob] 1000 1000 1000 ?tr
             = Inl (HTTPException 401 ''User not found'')"
    using guard_ignores_active_flag
      [of sample_settings 1000 ?tr q ?s bob "[alice, bob]" 1000 1000]
      q uu mem dist inactive by blast
  have f: "filter (\<lambda>r. username r = l_username ?d) [alice, bob] = [bob]"
    by (simp add: sample_defs)
  have v: "verify_password sample_crypto (l_password ?d) (password_hash bob) = Inr True"
    by (simp add: verify_password_def sample_crypto_def sample_defs)
  have c: "constraints_ok [alice, bob]"
    by (simp add: constraints_ok_def sample_defs)
  have l: "fst (login_user sample_crypto sample_settings [alice, bob] 1000 1000 1000 ?d)
     = Inr (Token ?ta ?tr ''bearer'')"
    using guard_ignores_active_flag
      [where d = ?d and rows = "[alice, bob]" and u = bob and cr = sample_crypto
         and st = sample_settings and now = 1000 and now_a = 1000 and now_r = 1000]
      f v c by blast
  show ?thesis using inactive g r l by blast
qed

section \<open>Refresh\<close>

text \<open>The paths of the refresh handler that end in a response of its own.\<close>

lemma refresh_token_wrong_kind:
  "decode_token st now token = Inr payload \<Longrightarrow> payload ''type'' \<noteq> Some (JStr ''refresh'') \<Longrightarrow>
   refresh_token st rows now now_a now_r token = Inl (HTTPException 400 ''Invalid refresh token'')"
  by (simp add: refresh_token_def)

lemma refresh_token_no_subject:
  "decode_token st now token = Inr payload \<Longrightarrow> payload ''type'' = Some (JStr ''refresh'') \<Longrightarrow>
   payload ''sub'' = None \<or> payload ''sub'' = Some (JStr []) \<Longrightarrow>
   refresh_token st rows now now_a now_r token = Inl (HTTPException 401 ''Invalid token'')"
  by (auto simp: refresh_token_def)

lemma refresh_token_unknown_account:
  "decode_token st now token = Inr payload \<Longrightarrow> payload ''type'' = Some (JStr ''refresh'') \<Longrightarrow>
   payload ''sub'' = Some (JStr s) \<Longrightarrow> UUID s = Inr uid \<Longrightarrow> uid \<notin> id_user ` set rows \<Longrightarrow>
   refresh_token st rows now now_a now_r token = Inl (HTTPException 401 ''User not found'')"
  using UUID_empty by (auto simp: refresh_token_def filter_id_absent)

lemma refresh_token_issues_pair:
  "decode_token st now token = Inr payload \<Longrightarrow> payload ''type'' = Some (JStr ''refresh'') \<Longrightarrow>
   payload ''sub'' = Some (JStr s) \<Longrightarrow> UUID s = Inr (id_user u) \<Longrightarrow> u \<in> set rows \<Longrightarrow>
   distinct (map id_user rows) \<Longrightarrow> is_active u \<Longrightarrow>
   refresh_token st rows now now_a now_r token = Inr (Token
     (create_access_token st now_a (str_uuid (id_user u)) None (username_extra u))
     (create_refresh_token st now_r (str_uuid (id_user u)) None (username_extra u))
     ''bearer'')"
  using UUID_empty by (auto simp: refresh_token_def filter_id_unique)

text \<open>The two paths on which an exception leaves the handler uncaught.\<close>

lemma refresh_token_decode_error:
  "decode_token st now token = Inl e \<Longrightarrow> refresh_token st rows now now_a now_r token = Inl e"
  by (simp add: refresh_token_def)

lemma refresh_token_uuid_error:
  "decode_token st now token = Inr payload \<Longrightarrow> payload ''type'' = Some (JStr ''refresh'') \<Longrightarrow>
   payload ''sub'' = Some (JStr s) \<Longrightarrow> s \<noteq> [] \<Longrightarrow> UUID s = Inl e \<Longrightarrow>
   refresh_token st rows now now_a now_r token = Inl e"
  by (simp add: refresh_token_def)

text \<open>
  Claim C2. A refresh request whose token does not decode, or whose subject does not
  parse as an identifier, is expected to end in 401. The handler catches neither
  exception, so the response is 500: for a malformed token, for a refresh token decoded
  after its expiry, and for a well-signed refresh token whose subject is not an
  identifier.
\<close>

theorem refresh_uncaught_exceptions:
  "http_status (refresh_token sample_settings [alice] 1000 1000 1000 (Malformed ''garbage''))
     = 500
   \<and> http_status (refresh_token sample_settings [alice] 1000000 1000000 1000000
        (create_refresh_token sample_settings 0 (str_uuid (id_user alice)) None
           (username_extra alice))) = 500
   \<and> http_status (refresh_token sample_settings [alice] 1000 1000 1000
        (create_refresh_token sample_settings 1000 ''not-a-uuid'' None None)) = 500"
  by (simp add: http_status_def refresh_token_def token_defs UUID_bad)

section \<open>Register\<close>

text \<open>A single matching row is answered with 409 and the table is left as it was.\<close>

lemma create_user_conflict:
  "filter (\<lambda>r. email r = c_email d \<or> username r = c_username d) rows = [x] \<Longrightarrow>
   create_user cr rows now new_id d = (Inl (HTTPException 409 ''User already exists''), rows)"
  by (simp add: create_user_def)

text \<open>
  What a successful registration stores and returns: the new row is appended with the
  drawn identifier, which no earlier row has; both timestamps are the clock reading;
  the row is active and has no last login; the hash is the hasher's output.
\<close>

lemma create_user_created:
  assumes "create_user cr rows now new_id d = (Inr resp, rows')"
  shows "\<exists>h. get_password_hash cr (c_password d) = Inr h
           \<and> rows' = rows @ [\<lparr> id_user = new_id, email = c_email d, username = c_username d,
                 full_name = c_full_name d, is_active = True, password_hash = h,
                 created_at = now, updated_at = now, last_login = None \<rparr>]
           \<and> resp = \<lparr> r_id = str_uuid new_id, r_email = c_email d, r_username = c_username d,
                 r_full_name = c_full_name d, r_is_active = True, r_created_at = now,
                 r_updated_at = now, r_last_login = None \<rparr>
           \<and> new_id \<notin> id_user ` set rows
           \<and> (\<forall>r \<in> set rows. email r \<noteq> c_email d \<and> username r \<noteq> c_username d)"
  using assms
  by (auto simp: create_user_def commit_def constraints_ok_def Let_def to_user_response_def
      filter_empty_conv
      split: sum.splits option.splits if_splits dest!: scalar_one_None)

text \<open>
  Claim C8. Registration is expected to answer 409 whenever some row has the email or
  the username. When one row has the email and another row has the username, the query
  returns two rows, \<^verbatim>\<open>scalar_one_or_none\<close> raises, and the response is 500.
\<close>

theorem register_two_matches:
  "create_user sample_crypto [alice, bob] 500 9
     \<lparr> c_email = ''a@x.com'', c_username = ''bob'', c_full_name = None,
       c_is_active = True, c_password = ''pw12345'' \<rparr>
   = (Inl MultipleResultsFound, [alice, bob])
   \<and> status_code MultipleResultsFound = 500"
  by code_simp

section \<open>Update\<close>

lemma update_user_success:
  assumes "update_user rows now user_id update_data = (Inr resp, rows')"
  shows "\<exists>uid u. UUID user_id = Inr uid \<and> filter (\<lambda>r. id_user r = uid) rows = [u]
           \<and> \<not> null_in_required update_data
           \<and> constraints_ok (store_row (apply_update update_data now u) rows)
           \<and> rows' = store_row (apply_update update_data now u) rows
           \<and> resp = to_user_response (apply_update update_data now u)"
  using assms
  by (auto simp: update_user_def commit_def Let_def split: sum.splits option.splits if_splits
      dest: scalar_one_Some)

text \<open>The conflict query for each combination of supplied fields.\<close>

lemma conflict_q_email_only:
  "f_email d = Given (Some e) \<Longrightarrow> f_username d = Unset \<Longrightarrow>
   conflict_q uid d rows = filter (\<lambda>r. id_user r \<noteq> uid \<and> email r = e) rows"
  by (auto simp: conflict_q_def matches_field_def intro: filter_cong)

lemma conflict_q_username_only:
  "f_email d = Unset \<Longrightarrow> f_username d = Given (Some n) \<Longrightarrow>
   conflict_q uid d rows = filter (\<lambda>r. id_user r \<noteq> uid \<and> username r = n) rows"
  by (auto simp: conflict_q_def matches_field_def intro: filter_cong)

lemma conflict_q_both:
  "f_email d = Given (Some e) \<Longrightarrow> f_username d = Given (Some n) \<Longrightarrow>
   conflict_q uid d rows
     = filter (\<lambda>r. id_user r \<noteq> uid \<and> email r = e \<and> username r = n) rows"
  by (auto simp: conflict_q_def matches_field_def intro: filter_cong)

text \<open>A row found by the conflict query is answered with 409; the table is left as it was.\<close>

lemma update_user_conflict:
  assumes "UUID user_id = Inr uid" and "filter (\<lambda>r. id_user r = uid) rows = [u]"
    and "is_given (f_email d) \<or> is_given (f_username d)"
    and "conflict_q uid d rows = [x]"
  shows "update_user rows now user_id d
           = (Inl (HTTPException 409 ''Email or username already exists''), rows)"
  using assms by (auto simp: update_user_def)

text \<open>
  Claim C3. An update that sets the email to another account's email, or the username
  to another account's username, is expected to answer 409, also when both are supplied
  and the two values belong to different accounts. With both supplied the conflict
  query asks for one row holding both values; no row does, the check passes, the commit
  breaks the unique constraint on the email, and the response is 500. The table is left
  as it was.
\<close>

theorem update_conflict_across_accounts:
  "update_user [alice, bob, carol] 500 ''00000000-0000-0000-0000-000000000001''
     \<lparr> f_email = Given (Some ''b@x.com''), f_username = Given (Some ''carol''),
       f_full_name = Unset, f_is_active = Unset \<rparr>
   = (Inl IntegrityError, [alice, bob, carol])
   \<and> status_code IntegrityError = 500"
  by code_simp

section \<open>The updated-at timestamp\<close>

lemma login_user_success:
  assumes "login_user cr st rows now now_a now_r d = (Inr tok, rows')"
  shows "\<exists>u. filter (\<lambda>r. username r = l_username d) rows = [u]
           \<and> verify_password cr (l_password d) (password_hash u) = Inr True
           \<and> constraints_ok (store_row (u\<lparr>last_login := Some now\<rparr>) rows)
           \<and> rows' = store_row (u\<lparr>last_login := Some now\<rparr>) rows
           \<and> tok = Token
               (create_access_token st now_a (str_uuid (id_user u)) None (username_extra u))
               (create_refresh_token st now_r (str_uuid (id_user u)) None (username_extra u))
               ''bearer''"
  using assms
  by (auto simp: login_user_def commit_def split: sum.splits option.splits bool.splits if_splits
      dest: scalar_one_Some)

text \<open>Writing back the one row with a username changes that row only.\<close>

lemma store_row_by_username:
  assumes "distinct (map id_user rows)"
    and "filter (\<lambda>r. username r = n) rows = [u]"
  shows "store_row (u\<lparr>last_login := x\<rparr>) rows
           = map (\<lambda>r. if username r = n then r\<lparr>last_login := x\<rparr> else r) rows"
proof -
  have mem: "u \<in> set rows" and un: "username u = n"
    using filter_singleton_mem [OF assms(2)] by simp_all
  have "(if id_user r = id_user (u\<lparr>last_login := x\<rparr>) then u\<lparr>last_login := x\<rparr> else r)
      = (if username r = n then r\<lparr>last_login := x\<rparr> else r)" if r: "r \<in> set rows" for r
  proof (cases "r = u")
    case True
    then show ?thesis using un by simp
  next
    case False
    have "id_user r \<noteq> id_user u"
      using assms(1) r mem False by (meson distinct_map inj_on_def)
    moreover have "username r \<noteq> n"
    proof
      assume "username r = n"
      then have "r \<in> set (filter (\<lambda>r. username r = n) rows)" using r by simp
      then show False using assms(2) False by simp
    qed
    ultimately show ?thesis by simp
  qed
  then show ?thesis by (simp add: store_row_def)
qed

lemma updated_at_monotone:
  assumes "map updated_at rows' = map (\<lambda>r. if id_user r = uid then now else updated_at r) rows"
    and "\<forall>r \<in> set rows. id_user r = uid \<longrightarrow> updated_at r \<le> now"
  shows "list_all2 (\<le>) (map updated_at rows) (map updated_at rows')"
  unfolding assms(1) using assms(2) by (simp add: list_all2_map1 list_all2_map2 list_all2_same)

text \<open>
  Claim C6, as stated: updated-at never decreases and is refreshed on every mutation of
  a row, the last-login mutation of a successful login included. A successful login of
  the sample account at instant 500 sets its last login to 500 and leaves its updated-at
  at 100. And the stamp an update writes is the reading of the wall clock: an update of
  the same account when the clock reads 50 lowers its updated-at from 100 to 50.
\<close>

theorem updated_at_not_refreshed:
  "login_user sample_crypto sample_settings [alice] 500 500 500
      \<lparr> l_username = ''alice'', l_password = ''pw12345'' \<rparr>
   = (Inr (Token
        (create_access_token sample_settings 500 (str_uuid (id_user alice)) None
           (username_extra alice))
        (create_refresh_token sample_settings 500 (str_uuid (id_user alice)) None
           (username_extra alice))
        ''bearer''),
      [alice\<lparr>last_login := Some 500\<rparr>])
   \<and> last_login alice = None
   \<and> last_login (alice\<lparr>last_login := Some 500\<rparr>) = Some 500
   \<and> updated_at (alice\<lparr>last_login := Some 500\<rparr>) = 100
   \<and> update_user [alice] 50 ''00000000-0000-0000-0000-000000000001''
        \<lparr> f_email = Unset, f_username = Unset, f_full_name = Given (Some ''Alice A''),
          f_is_active = Unset \<rparr>
      = (Inr (to_user_response (alice\<lparr>full_name := Some ''Alice A'', updated_at := 50\<rparr>)),
         [alice\<lparr>full_name := Some ''Alice A'', updated_at := 50\<rparr>])
   \<and> updated_at alice = 100
   \<and> updated_at (alice\<lparr>full_name := Some ''Alice A'', updated_at := 50\<rparr>) = 50"
proof -
  have login: "login_user sample_crypto sample_settings [alice] 500 500 500
      \<lparr> l_username = ''alice'', l_password = ''pw12345'' \<rparr>
   = (Inr (Token
        (create_access_token sample_settings 500 (str_uuid (id_user alice)) None
           (username_extra alice))
        (create_refresh_token sample_settings 500 (str_uuid (id_user alice)) None
           (username_extra alice))
        ''bearer''),
      [alice\<lparr>last_login := Some 500\<rparr>])"
    by (simp add: login_user_def verify_password_def sample_crypto_def commit_def
        constraints_ok_def store_row_def sample_defs)
  have upd: "update_user [alice] 50 ''00000000-0000-0000-0000-000000000001''
        \<lparr> f_email = Unset, f_username = Unset, f_full_name = Given (Some ''Alice A''),
          f_is_active = Unset \<rparr>
      = (Inr (to_user_response (alice\<lparr>full_name := Some ''Alice A'', updated_at := 50\<rparr>)),
         [alice\<lparr>full_name := Some ''Alice A'', updated_at := 50\<rparr>])"
    by code_simp
  show ?thesis using login upd by (simp add: sample_defs)
qed

text \<open>
  Claim C6, amended. A successful update sets the updated-at of the updated row, and of
  no other row, to the clock reading of the request, and returns it; so no updated-at
  decreases when that reading is not before the stored updated-at of the updated row. A
  successful login sets the last login of the row with the username to the clock
  reading and changes nothing else in the table: no other field of that row, and no
  other row; in particular no updated-at.
\<close>

theorem updated_at_refresh:
  "(update_user rows now user_id update_data = (Inr resp, rows') \<longrightarrow>
      r_updated_at resp = now
      \<and> (\<exists>uid. UUID user_id = Inr uid
            \<and> map updated_at rows'
                = map (\<lambda>r. if id_user r = uid then now else updated_at r) rows))
   \<and> (update_user rows now user_id update_data = (Inr resp, rows')
        \<and> (\<forall>r \<in> set rows. UUID user_id = Inr (id_user r) \<longrightarrow> updated_at r \<le> now) \<longrightarrow>
      list_all2 (\<le>) (map updated_at rows) (map updated_at rows'))
   \<and> (distinct (map id_user rows)
        \<and> login_user cr st rows now now_a now_r d = (Inr tok, rows') \<longrightarrow>
      rows' = map (\<lambda>r. if username r = l_username d then r\<lparr>last_login := Some now\<rparr> else r) rows
      \<and> map updated_at rows' = map updated_at rows
      \<and> (\<exists>u \<in> set rows'. username u = l_username d \<and> last_login u = Some now))"
proof -
  have upd: "r_updated_at resp = now
      \<and> (\<exists>uid. UUID user_id = Inr uid
            \<and> map updated_at rows'
                = map (\<lambda>r. if id_user r = uid then now else updated_at r) rows)"
    if a: "update_user rows now user_id update_data = (Inr resp, rows')"
  proof -
    from update_user_success [OF a] obtain uid u where
      u: "UUID user_id = Inr uid" "filter (\<lambda>r. id_user r = uid) rows = [u]"
         "rows' = store_row (apply_update update_data now u) rows"
         "resp = to_user_response (apply_update update_data now u)"
      by blast
    have r: "r_updated_at resp = now"
      using u(4) by (simp add: to_user_response_def apply_update_def)
    have idu: "id_user u = uid" using filter_singleton_mem [OF u(2)] by simp
    have "map updated_at rows'
        = map (\<lambda>r. if id_user r = uid then now else updated_at r) rows"
      using u(3) idu by (simp add: store_row_def apply_update_def)
    then show ?thesis using r u(1) by blast
  qed
  have mono: "list_all2 (\<le>) (map updated_at rows) (map updated_at rows')"
    if a: "update_user rows now user_id update_data = (Inr resp, rows')"
      and b: "\<forall>r \<in> set rows. UUID user_id = Inr (id_user r) \<longrightarrow> updated_at r \<le> now"
  proof -
    from upd [OF a] obtain uid where uid: "UUID user_id = Inr uid"
      "map updated_at rows' = map (\<lambda>r. if id_user r = uid then now else updated_at r) rows"
      by blast
    have "\<forall>r \<in> set rows. id_user r = uid \<longrightarrow> updated_at r \<le> now"
      using b uid(1) by auto
    with uid(2) show ?thesis by (rule updated_at_monotone)
  qed
  have login: "rows' = map (\<lambda>r. if username r = l_username d
                                  then r\<lparr>last_login := Some now\<rparr> else r) rows
      \<and> map updated_at rows' = map updated_at rows
      \<and> (\<exists>u \<in> set rows'. username u = l_username d \<and> last_login u = Some now)"
    if dist: "distinct (map id_user rows)"
      and l: "login_user cr st rows now now_a now_r d = (Inr tok, rows')"
  proof -
    from login_user_success [OF l] obtain u where
      u: "filter (\<lambda>r. username r = l_username d) rows = [u]"
         "rows' = store_row (u\<lparr>last_login := Some now\<rparr>) rows"
      by blast
    have mem: "u \<in> set rows" and un: "username u = l_username d"
      using filter_singleton_mem [OF u(1)] by simp_all
    have shape: "rows' = map (\<lambda>r. if username r = l_username d
                                    then r\<lparr>last_login := Some now\<rparr> else r) rows"
      unfolding u(2) using dist u(1) by (rule store_row_by_username)
    have same: "map updated_at rows' = map updated_at rows"
      unfolding u(2) using dist mem by (intro map_store_row [where u = u]) simp_all
    have "u\<lparr>last_login := Some now\<rparr> \<in> set rows'"
      unfolding u(2) store_row_def using mem by force
    moreover have "username (u\<lparr>last_login := Some now\<rparr>) = l_username d
        \<and> last_login (u\<lparr>last_login := Some now\<rparr>) = Some now"
      using un by simp
    ultimately have "\<exists>u \<in> set rows'. username u = l_username d \<and> last_login u = Some now"
      by (rule rev_bexI)
    then show ?thesis using shape same by simp
  qed
  show ?thesis using upd mono login by blast
qed

theorem updated_at_refresh_witness:
  "update_user [alice, bob] 500 ''00000000-0000-0000-0000-000000000001''
      \<lparr> f_email = Unset, f_username = Unset, f_full_name = Given (Some ''Alice A''),
        f_is_active = Unset \<rparr>
     = (Inr (to_user_response (alice\<lparr>full_name := Some ''Alice A'', updated_at := 500\<rparr>)),
        [alice\<lparr>full_name := Some ''Alice A'', updated_at := 500\<rparr>, bob])
   \<and> r_updated_at (to_user_response (alice\<lparr>full_name := Some ''Alice A'', updated_at := 500\<rparr>))
       = 500
   \<and> list_all2 (\<le>) (map updated_at [alice, bob])
        (map updated_at [alice\<lparr>full_name := Some ''Alice A'', updated_at := 500\<rparr>, bob])
   \<and> login_user sample_crypto sample_settings [alice, bob] 600 600 600
        \<lparr> l_username = ''bob'', l_password = ''pw12345'' \<rparr>
     = (Inr (Token
          (create_access_token sample_settings 600 (str_uuid (id_user bob)) None
             (username_extra bob))
          (create_refresh_token sample_settings 600 (str_uuid (id_user bob)) None
             (username_extra bob))
          ''bearer''),
        [alice, bob\<lparr>last_login := Some 600\<rparr>])
   \<and> [alice, bob\<lparr>last_login := Some 600\<rparr>]
       = map (\<lambda>r. if username r = ''bob'' then r\<lparr>last_login := Some 600\<rparr> else r) [alice, bob]
   \<and> map updated_at [alice, bob\<lparr>last_login := Some 600\<rparr>] = map updated_at [alice, bob]"
proof -
  let ?upd = "\<lparr> f_email = Unset, f_username = Unset, f_full_name = Given (Some ''Alice A''),
        f_is_active = Unset \<rparr>"
  let ?a = "alice\<lparr>full_name := Some ''Alice A'', updated_at := 500\<rparr>"
  let ?d = "\<lparr> l_username = ''bob'', l_password = ''pw12345'' \<rparr>"
  let ?tok = "Token
          (create_access_token sample_settings 600 (str_uuid (id_user bob)) None
             (username_extra bob))
          (create_refresh_token sample_settings 600 (str_uuid (id_user bob)) None
             (username_extra bob))
          ''bearer''"
  have e1: "update_user [alice, bob] 500 ''00000000-0000-0000-0000-000000000001'' ?upd
      = (Inr (to_user_response ?a), [?a, bob])"
    by code_simp
  have old: "\<forall>r \<in> set [alice, bob].
      UUID ''00000000-0000-0000-0000-000000000001'' = Inr (id_user r) \<longrightarrow> updated_at r \<le> 500"
    by (simp add: sample_defs)
  have e2: "login_user sample_crypto sample_settings [alice, bob] 600 600 600 ?d
      = (Inr ?tok, [alice, bob\<lparr>last_login := Some 600\<rparr>])"
    by (simp add: login_user_def verify_password_def sample_crypto_def commit_def
        constraints_ok_def store_row_def sample_defs)
  have dist: "distinct (map id_user [alice, bob])" by (simp add: sample_defs)
  have w1: "r_updated_at (to_user_response ?a) = 500"
    using updated_at_refresh
      [where rows = "[alice, bob]" and now = 500 and update_data = ?upd
         and user_id = "''00000000-0000-0000-0000-000000000001''"
         and resp = "to_user_response ?a" and rows' = "[?a, bob]"] e1
    by blast
  have w2: "list_all2 (\<le>) (map updated_at [alice, bob]) (map updated_at [?a, bob])"
    using updated_at_refresh
      [where rows = "[alice, bob]" and now = 500 and update_data = ?upd
         and user_id = "''00000000-0000-0000-0000-000000000001''"
         and resp = "to_user_response ?a" and rows' = "[?a, bob]"] e1 old
    by blast
  have w3: "[alice, bob\<lparr>last_login := Some 600\<rparr>]
       = map (\<lambda>r. if username r = l_username ?d then r\<lparr>last_login := Some 600\<rparr> else r)
           [alice, bob]
     \<and> map updated_at [alice, bob\<lparr>last_login := Some 600\<rparr>] = map updated_at [alice, bob]"
    using updated_at_refresh
      [where rows = "[alice, bob]" and now = 600 and now_a = 600 and now_r = 600
         and cr = sample_crypto and st = sample_settings and d = ?d and tok = ?tok
         and rows' = "[alice, bob\<lparr>last_login := Some 600\<rparr>]"] e2 dist
    by blast
  then have w4: "[alice, bob\<lparr>last_login := Some 600\<rparr>]
       = map (\<lambda>r. if username r = ''bob'' then r\<lparr>last_login := Some 600\<rparr> else r) [alice, bob]"
    and w5: "map updated_at [alice, bob\<lparr>last_login := Some 600\<rparr>] = map updated_at [alice, bob]"
    by simp_all
  show ?thesis using e1 e2 w1 w2 w4 w5 by blast
qed

section \<open>List\<close>











end
